theory Spec2Isabelle
  imports Main "HOL-Library.Word"
begin

section \<open>The save dialog of the tool trainer (SaveToDatabase.tsx)\<close>

text \<open>
  The component \<^verbatim>\<open>SaveToDatabase\<close> keeps seven pieces of local state, filters the
  \<^verbatim>\<open>messages\<close> prop, builds a payload and hands it to one of two calls of
  \<^verbatim>\<open>examplesApi\<close>. The handler \<^verbatim>\<open>handleSave\<close> is embedded as a function from the
  values it reads (the props and state captured by the render, the clock, and the way the
  awaited promise settles) to the ordered list of effects it performs.
\<close>

subsection \<open>Strings\<close>

text \<open>
  A JavaScript string is a sequence of UTF-16 code units. \<^verbatim>\<open>js\<close> embeds an ASCII
  literal of the source.
\<close>

type_synonym jsstring = "16 word list"

definition js :: "string \<Rightarrow> jsstring" where
  "js s = map (\<lambda>c. of_nat (of_char c)) s"

text \<open>
  \<^verbatim>\<open>String.prototype.trim\<close> strips the code units that are WhiteSpace or LineTerminator
  in ECMAScript from both ends: TAB, LF, VT, FF, CR, SPACE, NBSP, U+1680,
  U+2000 to U+200A, U+2028, U+2029, U+202F, U+205F, U+3000 and U+FEFF.
\<close>

definition is_ws :: "16 word \<Rightarrow> bool" where
  "is_ws c \<longleftrightarrow>
     c \<in> set [0x0009, 0x000A, 0x000B, 0x000C, 0x000D, 0x0020, 0x00A0, 0x1680,
               0x2028, 0x2029, 0x202F, 0x205F, 0x3000, 0xFEFF]
     \<or> (0x2000 \<le> c \<and> c \<le> 0x200A)"

definition trim :: "jsstring \<Rightarrow> jsstring" where
  "trim s = rev (dropWhile is_ws (rev (dropWhile is_ws s)))"

text \<open>
  The decimal numeral of an integer, as the template literal
  \<^verbatim>\<open>`Example ${Date.now()}`\<close> prints the millisecond clock (an integer far below
  \<open>10\<^sup>2\<^sup>1\<close>, where JavaScript would switch to exponent notation).
\<close>

fun digits :: "nat \<Rightarrow> jsstring" where
  "digits n = (if n < 10 then [of_nat (48 + n)]
               else digits (n div 10) @ [of_nat (48 + n mod 10)])"

declare digits.simps [simp del]

definition number_to_string :: "int \<Rightarrow> jsstring" where
  "number_to_string i = (if i < 0 then js ''-'' @ digits (nat (- i)) else digits (nat i))"

subsection \<open>Data model\<close>

text \<open>
  \<^verbatim>\<open>Content\<close> and \<^verbatim>\<open>Chunk\<close> are declared in \<^verbatim>\<open>types/toolTrainer\<close>, which is not part
  of the sources at hand. Modelled from the spec: a Content is an ordered sequence of
  Chunks, a Chunk has a \<^verbatim>\<open>kind\<close> (an opaque enumeration, here a type parameter) and a
  \<^verbatim>\<open>text\<close> that is a string, possibly empty or absent (the field \<open>chunk_text\<close>, as
  \<open>text\<close> is a keyword here). Whatever else a Content carries is kept in \<open>rest\<close>; the
  object spread \<^verbatim>\<open>{...content, chunks: ...}\<close> copies it.
\<close>

record 'k chunk =
  kind :: 'k
  chunk_text :: "jsstring option"

record ('k, 'r) content =
  chunks :: "'k chunk list"
  rest :: 'r

subsection \<open>Filtering the messages (lines 53 to 60)\<close>

text \<open>
  The callback \<^verbatim>\<open>(chunk) => chunk.text && chunk.text.trim() !== ""\<close>: an absent text and
  the empty string are falsy, any other string is tested after trimming.
\<close>

definition keep_chunk :: "'k chunk \<Rightarrow> bool" where
  "keep_chunk chunk =
     (case chunk_text chunk of
        None \<Rightarrow> False
      | Some t \<Rightarrow> t \<noteq> [] \<and> trim t \<noteq> [])"

definition filteredMessages :: "('k, 'r) content list \<Rightarrow> ('k, 'r) content list" where
  "filteredMessages msgs =
     filter (\<lambda>content. length (chunks content) > 0)
       (map (\<lambda>content. content\<lparr>chunks := filter keep_chunk (chunks content)\<rparr>) msgs)"

text \<open>
  The wording of the specification, to compare the callback with: the chunk's text is
  present and, trimmed, is not the empty string.
\<close>

definition text_nonblank :: "'k chunk \<Rightarrow> bool" where
  "text_nonblank chunk = (case chunk_text chunk of None \<Rightarrow> False | Some t \<Rightarrow> trim t \<noteq> [])"

subsection \<open>Component state and the payload\<close>

datatype save_mode = Database | Json

text \<open>The values of the seven \<^verbatim>\<open>useState\<close> hooks (lines 29 to 35).\<close>

record state =
  isOpen :: bool
  isSaving :: bool
  name :: jsstring
  description :: jsstring
  localTags :: "jsstring list"
  saveMode :: save_mode
  filePath :: jsstring

text \<open>
  The object literal of lines 62 to 71. Its keys \<^verbatim>\<open>name\<close>, \<^verbatim>\<open>description\<close>,
  \<^verbatim>\<open>messages\<close> and \<^verbatim>\<open>tags\<close> are prefixed with \<open>p_\<close>, since the state has fields of
  the same names. The two id lists are always empty; their element type is not visible
  in the source and is taken to be a number.
\<close>

record ('k, 'r) payload =
  p_name :: jsstring
  p_description :: jsstring
  p_messages :: "('k, 'r) content list"
  p_tags :: "jsstring list"
  is_global :: bool
  is_eval :: bool
  readable_by_user_ids :: "nat list"
  readable_by_group_ids :: "nat list"

text \<open>
  \<^verbatim>\<open>a || b\<close> on strings: the empty string is the only falsy string.
\<close>

definition or_else :: "jsstring \<Rightarrow> jsstring \<Rightarrow> jsstring" where
  "or_else a b = (if a \<noteq> [] then a else b)"

definition build_payload :: "('k, 'r) content list \<Rightarrow> state \<Rightarrow> int \<Rightarrow> ('k, 'r) payload" where
  "build_payload msgs st now =
     \<lparr> p_name = or_else (name st) (js ''Example '' @ number_to_string now),
       p_description = or_else (description st) [],
       p_messages = filteredMessages msgs,
       p_tags = localTags st,
       is_global = True,
       is_eval = False,
       readable_by_user_ids = [],
       readable_by_group_ids = [] \<rparr>"

subsection \<open>Effects\<close>

datatype variant = Default | Destructive

record toast =
  toast_title :: jsstring
  toast_description :: jsstring
  toast_variant :: "variant option"

text \<open>
  What a rejected promise carries: an instance of \<^verbatim>\<open>Error\<close> with its message, or any
  other value.
\<close>

datatype thrown = ErrorInstance jsstring | OtherValue

text \<open>
  How the awaited call of \<^verbatim>\<open>examplesApi\<close> settles. The client is not part of the
  sources; its promise may be fulfilled, be rejected, or stay pending for ever.
\<close>

datatype outcome = Fulfilled | Rejected thrown | Pending

text \<open>
  Everything \<^verbatim>\<open>handleSave\<close> does to the outside, in order: calls of the state setters,
  of the console, of \<^verbatim>\<open>toast\<close> and of the two persistence functions.
\<close>

datatype ('k, 'r) event =
    SetIsSaving bool
  | SetIsOpen bool
  | SetName jsstring
  | SetDescription jsstring
  | SetLocalTags "jsstring list"
  | SetFilePath jsstring
  | ConsoleLog "('k, 'r) payload"
  | ConsoleError thrown
  | ToastEv toast
  | CreateExample "('k, 'r) payload"
  | SaveToJSON jsstring "('k, 'r) payload"

text \<open>
  How a block of statements ends: it runs to its end, executes \<^verbatim>\<open>return\<close>, throws, or
  is suspended at an \<^verbatim>\<open>await\<close> that never resumes.
\<close>

datatype completion = Normal | Return | Throw thrown | Suspended

type_synonym ('k, 'r) run = "('k, 'r) event list \<times> completion"

text \<open>Sequencing: the second block runs only when the first one completes normally.\<close>

definition then_do :: "('k, 'r) run \<Rightarrow> ('k, 'r) run \<Rightarrow> ('k, 'r) run" where
  "then_do r1 r2 =
     (case snd r1 of
        Normal \<Rightarrow> (fst r1 @ fst r2, snd r2)
      | _ \<Rightarrow> r1)"

definition do_event :: "('k, 'r) event \<Rightarrow> ('k, 'r) run" where
  "do_event e = ([e], Normal)"

text \<open>\<^verbatim>\<open>await f(...)\<close>: the call is made, then the promise decides how to go on.\<close>

definition await_call :: "('k, 'r) event \<Rightarrow> outcome \<Rightarrow> ('k, 'r) run" where
  "await_call e out =
     ([e], case out of Fulfilled \<Rightarrow> Normal | Rejected err \<Rightarrow> Throw err | Pending \<Rightarrow> Suspended)"

subsection \<open>handleSave (lines 48 to 116)\<close>

definition toast_saved_database :: toast where
  "toast_saved_database =
     \<lparr> toast_title = js ''Success'',
       toast_description = js ''Example saved to database successfully'',
       toast_variant = None \<rparr>"

definition toast_saved_json :: toast where
  "toast_saved_json =
     \<lparr> toast_title = js ''Success'',
       toast_description = js ''Example saved to JSON file successfully'',
       toast_variant = None \<rparr>"

definition toast_no_file_path :: toast where
  "toast_no_file_path =
     \<lparr> toast_title = js ''Error'',
       toast_description = js ''Please provide a file path for the JSON file.'',
       toast_variant = Some Destructive \<rparr>"

definition toast_failed :: "thrown \<Rightarrow> toast" where
  "toast_failed err =
     \<lparr> toast_title = js ''Error'',
       toast_description =
         (case err of ErrorInstance msg \<Rightarrow> msg | OtherValue \<Rightarrow> js ''Failed to save example''),
       toast_variant = Some Destructive \<rparr>"

text \<open>The body of the \<^verbatim>\<open>try\<close> block, lines 52 to 104.\<close>

definition try_block :: "('k, 'r) content list \<Rightarrow> state \<Rightarrow> int \<Rightarrow> outcome \<Rightarrow> ('k, 'r) run" where
  "try_block msgs st now out =
     (let payload = build_payload msgs st now in
      then_do (do_event (ConsoleLog payload))
     (then_do
        (if saveMode st = Database then
           then_do (await_call (CreateExample payload) out)
                   (do_event (ToastEv toast_saved_database))
         else
           then_do
             (if trim (filePath st) = [] then
                ([ToastEv toast_no_file_path, SetIsSaving False], Return)
              else ([], Normal))
          (then_do (await_call (SaveToJSON (filePath st) payload) out)
                   (do_event (ToastEv toast_saved_json))))
        ([SetIsOpen False, SetName [], SetDescription [], SetLocalTags [], SetFilePath []],
         Normal)))"

text \<open>The \<^verbatim>\<open>catch\<close> block, lines 105 to 112.\<close>

definition catch_block :: "thrown \<Rightarrow> ('k, 'r) run" where
  "catch_block err = ([ConsoleError err, ToastEv (toast_failed err)], Normal)"

text \<open>
  \<^verbatim>\<open>try { ... } catch (error) { ... } finally { setIsSaving(false) }\<close>: a throw of the
  body is handled by the \<^verbatim>\<open>catch\<close> block, and the \<^verbatim>\<open>finally\<close> block runs after a
  normal end, a \<^verbatim>\<open>return\<close> and a handled throw, but not while the body is suspended.
\<close>

definition try_catch_finally ::
  "('k, 'r) run \<Rightarrow> (thrown \<Rightarrow> ('k, 'r) run) \<Rightarrow> ('k, 'r) run \<Rightarrow> ('k, 'r) run" where
  "try_catch_finally body handler fin =
     (let r = (case snd body of
                 Throw err \<Rightarrow> (fst body @ fst (handler err), snd (handler err))
               | _ \<Rightarrow> body)
      in case snd r of
           Suspended \<Rightarrow> r
         | c \<Rightarrow> (case snd fin of Normal \<Rightarrow> (fst r @ fst fin, c) | c' \<Rightarrow> (fst r @ fst fin, c')))"

definition handleSave :: "('k, 'r) content list \<Rightarrow> state \<Rightarrow> int \<Rightarrow> outcome \<Rightarrow> ('k, 'r) run" where
  "handleSave msgs st now out =
     then_do (do_event (SetIsSaving True))
       (try_catch_finally (try_block msgs st now out) catch_block (do_event (SetIsSaving False)))"

text \<open>The effects of a run, and whether the handler came to its end.\<close>

definition trace :: "('k, 'r) run \<Rightarrow> ('k, 'r) event list" where
  "trace r = fst r"

definition terminated :: "('k, 'r) run \<Rightarrow> bool" where
  "terminated r = (snd r = Normal \<or> snd r = Return)"

subsection \<open>Reading a trace\<close>

text \<open>
  The state after the queued setter calls have been applied, in order; the other effects
  leave the component state alone.
\<close>

fun apply_event :: "state \<Rightarrow> ('k, 'r) event \<Rightarrow> state" where
  "apply_event st (SetIsSaving b) = st\<lparr>isSaving := b\<rparr>"
| "apply_event st (SetIsOpen b) = st\<lparr>isOpen := b\<rparr>"
| "apply_event st (SetName s) = st\<lparr>name := s\<rparr>"
| "apply_event st (SetDescription s) = st\<lparr>description := s\<rparr>"
| "apply_event st (SetLocalTags ts) = st\<lparr>localTags := ts\<rparr>"
| "apply_event st (SetFilePath s) = st\<lparr>filePath := s\<rparr>"
| "apply_event st _ = st"

definition final_state :: "state \<Rightarrow> ('k, 'r) event list \<Rightarrow> state" where
  "final_state st evs = foldl apply_event st evs"

fun is_api_call :: "('k, 'r) event \<Rightarrow> bool" where
  "is_api_call (CreateExample _) = True"
| "is_api_call (SaveToJSON _ _) = True"
| "is_api_call _ = False"

definition api_calls :: "('k, 'r) event list \<Rightarrow> ('k, 'r) event list" where
  "api_calls evs = filter is_api_call evs"

fun is_toast :: "('k, 'r) event \<Rightarrow> bool" where
  "is_toast (ToastEv _) = True"
| "is_toast _ = False"

definition toasts :: "('k, 'r) event list \<Rightarrow> ('k, 'r) event list" where
  "toasts evs = filter is_toast evs"

text \<open>
  The setters that reset a form field or close the dialog (everything but
  \<^verbatim>\<open>setIsSaving\<close>).
\<close>

fun is_reset :: "('k, 'r) event \<Rightarrow> bool" where
  "is_reset (SetIsOpen _) = True"
| "is_reset (SetName _) = True"
| "is_reset (SetDescription _) = True"
| "is_reset (SetLocalTags _) = True"
| "is_reset (SetFilePath _) = True"
| "is_reset _ = False"

text \<open>The payload an effect carries, if any.\<close>

fun payload_of :: "('k, 'r) event \<Rightarrow> ('k, 'r) payload option" where
  "payload_of (ConsoleLog p) = Some p"
| "payload_of (CreateExample p) = Some p"
| "payload_of (SaveToJSON _ p) = Some p"
| "payload_of _ = None"

subsection \<open>The save control (line 260)\<close>

text \<open>
  \<^verbatim>\<open>disabled={isSaving || !name.trim() || messages.length === 0}\<close>
\<close>

definition save_disabled :: "('k, 'r) content list \<Rightarrow> state \<Rightarrow> bool" where
  "save_disabled msgs st \<longleftrightarrow> isSaving st \<or> trim (name st) = [] \<or> length msgs = 0"

subsection \<open>A concrete dialog\<close>

text \<open>
  Two messages: the first has a chunk \<^verbatim>\<open>"Hello"\<close> and a chunk with the empty text, the
  second has a chunk of two spaces and a chunk without text. The dialog is open, named
  \<^verbatim>\<open>"Greeting"\<close> and tagged \<^verbatim>\<open>"demo"\<close>.
\<close>

definition example_messages :: "(nat, unit) content list" where
  "example_messages =
     [ \<lparr> chunks = [ \<lparr> kind = 0, chunk_text = Some (js ''Hello'') \<rparr>,
                    \<lparr> kind = 0, chunk_text = Some [] \<rparr> ],
         rest = () \<rparr>,
       \<lparr> chunks = [ \<lparr> kind = 1, chunk_text = Some (js ''  '') \<rparr>,
                    \<lparr> kind = 1, chunk_text = None \<rparr> ],
         rest = () \<rparr> ]"

definition example_state :: state where
  "example_state =
     \<lparr> isOpen = True, isSaving = False, name = js ''Greeting'', description = js ''A greeting'',
       localTags = [js ''demo''], saveMode = Database, filePath = [] \<rparr>"

text \<open>The same dialog in JSON mode, with a file path of two spaces and with a proper one.\<close>

definition example_json_blank :: state where
  "example_json_blank = example_state\<lparr>saveMode := Json, filePath := js ''  ''\<rparr>"

definition example_json :: state where
  "example_json = example_state\<lparr>saveMode := Json, filePath := js ''/mnt/e.json''\<rparr>"

text \<open>The dialog while a save is in flight.\<close>

definition example_saving :: state where
  "example_saving = example_state\<lparr>isSaving := True\<rparr>"

section \<open>Properties\<close>

subsection \<open>Trimming\<close>

lemma trim_Nil: "trim [] = []"
  by (simp add: trim_def)

lemma dropWhile_all: "(\<forall>x \<in> set (dropWhile P s). P x) \<longleftrightarrow> (\<forall>c \<in> set s. P c)"
  by (induction s) auto

lemma trim_empty_iff: "trim s = [] \<longleftrightarrow> (\<forall>c \<in> set s. is_ws c)"
  by (simp add: trim_def dropWhile_all)

lemma keep_chunk_text_nonblank: "keep_chunk chunk = text_nonblank chunk"
  by (auto simp: keep_chunk_def text_nonblank_def trim_Nil split: option.splits)

lemma keep_chunk_eq: "keep_chunk = text_nonblank"
  by (rule ext) (rule keep_chunk_text_nonblank)

subsection \<open>Evaluating the concrete dialog\<close>

lemma example_filtered:
  "filteredMessages example_messages =
     [ \<lparr> chunks = [ \<lparr> kind = 0, chunk_text = Some (js ''Hello'') \<rparr> ], rest = () \<rparr> ]"
  by (simp add: filteredMessages_def example_messages_def keep_chunk_def trim_def js_def
      is_ws_def)

lemma example_json_blank_mode: "saveMode example_json_blank = Json"
  by (simp add: example_json_blank_def)

lemma example_json_blank_path: "trim (filePath example_json_blank) = []"
  by (simp add: example_json_blank_def trim_def js_def is_ws_def)

lemma example_json_mode: "saveMode example_json = Json"
  by (simp add: example_json_def)

lemma example_json_path: "trim (filePath example_json) \<noteq> []"
  by (simp add: example_json_def trim_def js_def is_ws_def)

lemma example_state_mode: "saveMode example_state = Database"
  by (simp add: example_state_def)

lemma example_name_not_blank: "trim (name example_state) \<noteq> []"
  by (simp add: example_state_def trim_def js_def is_ws_def)

subsection \<open>The runs of handleSave, case by case\<close>

lemmas handleSave_unfold =
  handleSave_def try_block_def try_catch_finally_def catch_block_def then_do_def
  do_event_def await_call_def Let_def

lemma handleSave_database:
  "saveMode st = Database \<Longrightarrow>
   handleSave msgs st now out =
     (case out of
        Fulfilled \<Rightarrow>
          ([SetIsSaving True, ConsoleLog (build_payload msgs st now),
            CreateExample (build_payload msgs st now), ToastEv toast_saved_database,
            SetIsOpen False, SetName [], SetDescription [], SetLocalTags [], SetFilePath [],
            SetIsSaving False], Normal)
      | Rejected err \<Rightarrow>
          ([SetIsSaving True, ConsoleLog (build_payload msgs st now),
            CreateExample (build_payload msgs st now), ConsoleError err,
            ToastEv (toast_failed err), SetIsSaving False], Normal)
      | Pending \<Rightarrow>
          ([SetIsSaving True, ConsoleLog (build_payload msgs st now),
            CreateExample (build_payload msgs st now)], Suspended))"
  by (simp add: handleSave_unfold split: outcome.splits)

lemma handleSave_json_blank:
  "saveMode st = Json \<Longrightarrow> trim (filePath st) = [] \<Longrightarrow>
   handleSave msgs st now out =
     ([SetIsSaving True, ConsoleLog (build_payload msgs st now), ToastEv toast_no_file_path,
       SetIsSaving False, SetIsSaving False], Return)"
  by (simp add: handleSave_unfold)

lemma handleSave_json:
  "saveMode st = Json \<Longrightarrow> trim (filePath st) \<noteq> [] \<Longrightarrow>
   handleSave msgs st now out =
     (case out of
        Fulfilled \<Rightarrow>
          ([SetIsSaving True, ConsoleLog (build_payload msgs st now),
            SaveToJSON (filePath st) (build_payload msgs st now), ToastEv toast_saved_json,
            SetIsOpen False, SetName [], SetDescription [], SetLocalTags [], SetFilePath [],
            SetIsSaving False], Normal)
      | Rejected err \<Rightarrow>
          ([SetIsSaving True, ConsoleLog (build_payload msgs st now),
            SaveToJSON (filePath st) (build_payload msgs st now), ConsoleError err,
            ToastEv (toast_failed err), SetIsSaving False], Normal)
      | Pending \<Rightarrow>
          ([SetIsSaving True, ConsoleLog (build_payload msgs st now),
            SaveToJSON (filePath st) (build_payload msgs st now)], Suspended))"
  by (simp add: handleSave_unfold split: outcome.splits)

lemmas handleSave_runs = handleSave_database handleSave_json_blank handleSave_json

lemma save_mode_cases:
  obtains (database) "saveMode st = Database"
  | (json_blank) "saveMode st = Json" "trim (filePath st) = []"
  | (json) "saveMode st = Json" "trim (filePath st) \<noteq> []"
  by (cases "saveMode st") auto

subsection \<open>The filter\<close>

text \<open>
  C9. The filter is idempotent: filtering an already filtered list of messages changes
  nothing.
\<close>

theorem filteredMessages_idempotent:
  "filteredMessages (filteredMessages msgs) = filteredMessages msgs"
  by (induction msgs) (auto simp: filteredMessages_def)

theorem filteredMessages_idempotent_witness:
  "filteredMessages (filteredMessages example_messages) =
     [ \<lparr> chunks = [ \<lparr> kind = 0, chunk_text = Some (js ''Hello'') \<rparr> ], rest = () \<rparr> ]"
  using filteredMessages_idempotent [of example_messages] by (simp only: example_filtered)

lemma filteredMessages_comprehension:
  "filteredMessages msgs =
     [content\<lparr>chunks := filter text_nonblank (chunks content)\<rparr>.
        content \<leftarrow> msgs, filter text_nonblank (chunks content) \<noteq> []]"
  unfolding filteredMessages_def keep_chunk_eq
  by (induction msgs) simp_all

lemma filteredMessages_retained:
  "content \<in> set (filteredMessages msgs) \<Longrightarrow>
     chunks content \<noteq> [] \<and> (\<forall>chunk \<in> set (chunks content). text_nonblank chunk)"
  unfolding filteredMessages_def keep_chunk_eq
  by auto

text \<open>
  C1. The filtered list is the input list in which every Content keeps, in order, exactly
  the chunks whose text is present and non-empty after trimming, and from which every
  Content left without a chunk is removed; every Content of the result has a chunk and
  every chunk of the result has a text that is present and non-empty after trimming.
\<close>

theorem filteredMessages_keeps_nonblank:
  "filteredMessages msgs =
     [content\<lparr>chunks := filter text_nonblank (chunks content)\<rparr>.
        content \<leftarrow> msgs, filter text_nonblank (chunks content) \<noteq> []]
   \<and> (\<forall>content \<in> set (filteredMessages msgs).
        chunks content \<noteq> [] \<and> (\<forall>chunk \<in> set (chunks content). text_nonblank chunk))"
  using filteredMessages_comprehension filteredMessages_retained by blast

theorem filteredMessages_keeps_nonblank_witness:
  "chunks \<lparr> chunks = [ \<lparr> kind = 0::nat, chunk_text = Some (js ''Hello'') \<rparr> ], rest = () \<rparr> \<noteq> []
   \<and> text_nonblank \<lparr> kind = 0::nat, chunk_text = Some (js ''Hello'') \<rparr>"
  using filteredMessages_keeps_nonblank [of example_messages, THEN conjunct2]
  by (simp add: example_filtered)

subsection \<open>Calls and notifications of a run\<close>

lemma api_calls_handleSave:
  "api_calls (trace (handleSave msgs st now out)) =
     (if saveMode st = Database then [CreateExample (build_payload msgs st now)]
      else if trim (filePath st) = [] then []
      else [SaveToJSON (filePath st) (build_payload msgs st now)])"
  by (cases st rule: save_mode_cases)
     (simp_all add: handleSave_runs trace_def
        api_calls_def split: outcome.splits)

subsection \<open>Validation of the file path\<close>

text \<open>
  C2. In JSON mode with a file path that is empty after trimming, whatever the messages,
  the clock and the client would do: exactly one notification is emitted, titled
  "Error" and described "Please provide a file path for the JSON file."; neither
  \<^verbatim>\<open>createExample\<close> nor \<^verbatim>\<open>saveToJSON\<close> is called; no form field is reset and the dialog
  is not closed (the state is left as it was, with \<open>isSaving\<close> false).
\<close>

theorem json_blank_file_path_aborts:
  "saveMode st = Json \<Longrightarrow> trim (filePath st) = [] \<Longrightarrow>
     toasts (trace (handleSave msgs st now out)) =
       [ToastEv \<lparr> toast_title = js ''Error'',
                  toast_description = js ''Please provide a file path for the JSON file.'',
                  toast_variant = Some Destructive \<rparr>]
     \<and> api_calls (trace (handleSave msgs st now out)) = []
     \<and> filter is_reset (trace (handleSave msgs st now out)) = []
     \<and> final_state st (trace (handleSave msgs st now out)) = st\<lparr>isSaving := False\<rparr>
     \<and> isOpen (final_state st (trace (handleSave msgs st now out))) = isOpen st
     \<and> terminated (handleSave msgs st now out)"
  by (simp add: handleSave_json_blank trace_def toasts_def api_calls_def final_state_def
      toast_no_file_path_def terminated_def)

theorem json_blank_file_path_aborts_witness:
  "toasts (trace (handleSave example_messages example_json_blank 0 Fulfilled)) =
       [ToastEv \<lparr> toast_title = js ''Error'',
                  toast_description = js ''Please provide a file path for the JSON file.'',
                  toast_variant = Some Destructive \<rparr>]
     \<and> api_calls (trace (handleSave example_messages example_json_blank 0 Fulfilled)) = []
     \<and> filter is_reset (trace (handleSave example_messages example_json_blank 0 Fulfilled)) = []
     \<and> final_state example_json_blank
          (trace (handleSave example_messages example_json_blank 0 Fulfilled)) =
        example_json_blank\<lparr>isSaving := False\<rparr>
     \<and> isOpen (final_state example_json_blank
          (trace (handleSave example_messages example_json_blank 0 Fulfilled))) =
        isOpen example_json_blank
     \<and> terminated (handleSave example_messages example_json_blank 0 Fulfilled)"
  by (rule json_blank_file_path_aborts [OF example_json_blank_mode example_json_blank_path])

subsection \<open>A failing persistence call\<close>

text \<open>
  C3. When the persistence call is made and its promise is rejected, exactly one
  notification is emitted, titled "Error"; its description is the message of the thrown
  value when that is an \<^verbatim>\<open>Error\<close> instance and "Failed to save example" otherwise. No
  form field is reset, \<open>isOpen\<close> is unchanged, and the state is left as it was with
  \<open>isSaving\<close> false.
\<close>

theorem failed_save_keeps_dialog:
  "api_calls (trace (handleSave msgs st now (Rejected err))) \<noteq> [] \<Longrightarrow>
     toasts (trace (handleSave msgs st now (Rejected err))) =
       [ToastEv \<lparr> toast_title = js ''Error'',
                  toast_description =
                    (case err of ErrorInstance msg \<Rightarrow> msg
                     | OtherValue \<Rightarrow> js ''Failed to save example''),
                  toast_variant = Some Destructive \<rparr>]
     \<and> filter is_reset (trace (handleSave msgs st now (Rejected err))) = []
     \<and> final_state st (trace (handleSave msgs st now (Rejected err))) = st\<lparr>isSaving := False\<rparr>
     \<and> isOpen (final_state st (trace (handleSave msgs st now (Rejected err)))) = isOpen st
     \<and> terminated (handleSave msgs st now (Rejected err))"
  by (cases st rule: save_mode_cases)
     (simp_all add: handleSave_runs trace_def
        api_calls_def toasts_def final_state_def toast_failed_def terminated_def)

lemma example_state_calls:
  "api_calls (trace (handleSave example_messages example_state now out)) \<noteq> []"
  by (simp add: api_calls_handleSave example_state_mode)

theorem failed_save_keeps_dialog_witness:
  "toasts (trace (handleSave example_messages example_state 0
       (Rejected (ErrorInstance (js ''network down''))))) =
     [ToastEv \<lparr> toast_title = js ''Error'', toast_description = js ''network down'',
                toast_variant = Some Destructive \<rparr>]
   \<and> final_state example_state (trace (handleSave example_messages example_state 0
       (Rejected (ErrorInstance (js ''network down''))))) = example_state"
  using failed_save_keeps_dialog [OF example_state_calls,
      of 0 "ErrorInstance (js ''network down'')"]
  by (simp add: example_state_def)

subsection \<open>The saving flag\<close>

text \<open>
  C4. Every run of \<^verbatim>\<open>handleSave\<close> starts by setting \<open>isSaving\<close> to true. It comes to
  its end exactly when the awaited promise settles or the file path validation aborts,
  and on each of these exits (success, validation abort, thrown error) the last effect
  sets \<open>isSaving\<close> to false, so that the flag is false in the resulting state.
\<close>

theorem isSaving_set_then_restored:
  "trace (handleSave msgs st now out) \<noteq> []
   \<and> hd (trace (handleSave msgs st now out)) = SetIsSaving True
   \<and> (terminated (handleSave msgs st now out) \<longleftrightarrow>
        out \<noteq> Pending \<or> (saveMode st = Json \<and> trim (filePath st) = []))
   \<and> (terminated (handleSave msgs st now out) \<longrightarrow>
        last (trace (handleSave msgs st now out)) = SetIsSaving False
        \<and> isSaving (final_state st (trace (handleSave msgs st now out))) = False)"
  by (cases st rule: save_mode_cases)
     (simp_all add: handleSave_runs trace_def terminated_def final_state_def
        split: outcome.splits)

theorem isSaving_set_then_restored_witness:
  "isSaving (final_state example_state
      (trace (handleSave example_messages example_state 0 Fulfilled))) = False
   \<and> isSaving (final_state example_state
      (trace (handleSave example_messages example_state 0 (Rejected OtherValue)))) = False
   \<and> isSaving (final_state example_json_blank
      (trace (handleSave example_messages example_json_blank 0 Pending))) = False"
  using isSaving_set_then_restored [of example_messages example_state 0 Fulfilled]
    isSaving_set_then_restored [of example_messages example_state 0 "Rejected OtherValue"]
    isSaving_set_then_restored [of example_messages example_json_blank 0 Pending]
  by (simp add: example_json_blank_mode example_json_blank_path)

subsection \<open>The number of persistence calls\<close>

text \<open>
  C5, as stated, fails: in JSON mode with a blank file path a run makes no persistence
  call at all.
\<close>

theorem one_call_counterexample:
  "api_calls (trace (handleSave example_messages example_json_blank 0 Fulfilled)) = []
   \<and> length (api_calls (trace (handleSave example_messages example_json_blank 0 Fulfilled))) \<noteq> 1"
  by (simp add: api_calls_handleSave example_json_blank_mode example_json_blank_path)

text \<open>
  C5, amended. A run makes at most one persistence call, chosen by the save mode: exactly
  one \<^verbatim>\<open>createExample(payload)\<close> in database mode, exactly one
  \<^verbatim>\<open>saveToJSON(filePath, payload)\<close> in JSON mode when the trimmed file path is not empty,
  and none in JSON mode when the trimmed file path is empty.
\<close>

theorem at_most_one_call_by_mode:
  "(saveMode st = Database \<longrightarrow>
      api_calls (trace (handleSave msgs st now out)) = [CreateExample (build_payload msgs st now)])
   \<and> (saveMode st = Json \<and> trim (filePath st) \<noteq> [] \<longrightarrow>
      api_calls (trace (handleSave msgs st now out)) =
        [SaveToJSON (filePath st) (build_payload msgs st now)])
   \<and> (saveMode st = Json \<and> trim (filePath st) = [] \<longrightarrow>
      api_calls (trace (handleSave msgs st now out)) = [])"
  by (simp add: api_calls_handleSave)

theorem at_most_one_call_by_mode_witness:
  "api_calls (trace (handleSave example_messages example_state 0 Fulfilled)) =
     [CreateExample (build_payload example_messages example_state 0)]
   \<and> api_calls (trace (handleSave example_messages example_json 0 Fulfilled)) =
     [SaveToJSON (filePath example_json) (build_payload example_messages example_json 0)]
   \<and> api_calls (trace (handleSave example_messages example_json_blank 0 Fulfilled)) = []"
  using at_most_one_call_by_mode [of example_state example_messages 0 Fulfilled]
    at_most_one_call_by_mode [of example_json example_messages 0 Fulfilled]
    at_most_one_call_by_mode [of example_json_blank example_messages 0 Fulfilled]
  by (simp add: example_state_mode example_json_mode example_json_path
      example_json_blank_mode example_json_blank_path)

subsection \<open>A successful save\<close>

text \<open>
  C6. When the persistence call is made and its promise is fulfilled, in either mode,
  exactly one notification is emitted, titled "Success", with the message of the mode;
  the resulting state has the dialog closed, \<open>name\<close>, \<open>description\<close> and \<open>filePath\<close>
  empty strings and \<open>localTags\<close> the empty list (and \<open>isSaving\<close> false).
\<close>

theorem successful_save_resets_and_closes:
  "api_calls (trace (handleSave msgs st now Fulfilled)) \<noteq> [] \<Longrightarrow>
     toasts (trace (handleSave msgs st now Fulfilled)) =
       [ToastEv \<lparr> toast_title = js ''Success'',
                  toast_description =
                    (if saveMode st = Database then js ''Example saved to database successfully''
                     else js ''Example saved to JSON file successfully''),
                  toast_variant = None \<rparr>]
     \<and> final_state st (trace (handleSave msgs st now Fulfilled)) =
         st\<lparr>isOpen := False, isSaving := False, name := [], description := [],
            localTags := [], filePath := []\<rparr>
     \<and> terminated (handleSave msgs st now Fulfilled)"
  by (cases st rule: save_mode_cases)
     (simp_all add: handleSave_runs trace_def api_calls_def toasts_def final_state_def
        toast_saved_database_def toast_saved_json_def terminated_def)

lemma example_json_calls:
  "api_calls (trace (handleSave example_messages example_json now out)) \<noteq> []"
  by (simp add: api_calls_handleSave example_json_mode example_json_path)

theorem successful_save_resets_and_closes_witness:
  "final_state example_state (trace (handleSave example_messages example_state 0 Fulfilled)) =
     \<lparr> isOpen = False, isSaving = False, name = [], description = [], localTags = [],
       saveMode = Database, filePath = [] \<rparr>
   \<and> final_state example_json (trace (handleSave example_messages example_json 0 Fulfilled)) =
     \<lparr> isOpen = False, isSaving = False, name = [], description = [], localTags = [],
       saveMode = Json, filePath = [] \<rparr>"
  using successful_save_resets_and_closes [OF example_state_calls, of 0]
    successful_save_resets_and_closes [OF example_json_calls, of 0]
  by (simp add: example_state_def example_json_def)

subsection \<open>The save control\<close>

text \<open>
  C7, as stated, fails: while a save is in flight the control is disabled although the
  name is not blank and there are messages.
\<close>

theorem save_disabled_counterexample:
  "save_disabled example_messages example_saving
   \<and> \<not> (trim (name example_saving) = [] \<or> example_messages = [])"
  by (simp add: save_disabled_def example_saving_def example_messages_def example_name_not_blank)

text \<open>
  C7, amended. The save control is disabled exactly when a save is in flight
  (\<open>isSaving\<close>), or the name is empty after trimming (it consists of white space only),
  or the messages prop is empty; it is enabled in all other states.
\<close>

theorem save_disabled_iff:
  "save_disabled msgs st \<longleftrightarrow>
     isSaving st \<or> (\<forall>c \<in> set (name st). is_ws c) \<or> msgs = []"
  by (simp add: save_disabled_def trim_empty_iff)

theorem save_disabled_iff_witness:
  "\<not> save_disabled example_messages example_state
   \<and> save_disabled example_messages (example_state\<lparr>name := js ''  ''\<rparr>)
   \<and> save_disabled ([] :: (nat, unit) content list) example_state
   \<and> save_disabled example_messages (example_state\<lparr>isSaving := True\<rparr>)"
  using save_disabled_iff [of example_messages example_state]
    save_disabled_iff [of example_messages "example_state\<lparr>name := js ''  ''\<rparr>"]
    save_disabled_iff [of "[] :: (nat, unit) content list" example_state]
    save_disabled_iff [of example_messages "example_state\<lparr>isSaving := True\<rparr>"]
  by (simp add: example_state_def example_messages_def js_def is_ws_def)

subsection \<open>The payload\<close>

lemma payload_of_handleSave:
  "e \<in> set (trace (handleSave msgs st now out)) \<Longrightarrow>
     payload_of e = None \<or> payload_of e = Some (build_payload msgs st now)"
  by (cases st rule: save_mode_cases)
     (auto simp: handleSave_runs trace_def split: outcome.splits)

lemma example_enabled: "\<not> save_disabled example_messages example_state"
  by (simp add: save_disabled_def example_name_not_blank)
     (simp add: example_messages_def example_state_def)

lemma enabled_name_nonempty: "\<not> save_disabled msgs st \<Longrightarrow> name st \<noteq> []"
  by (auto simp: save_disabled_def trim_Nil)

text \<open>
  C8. The save control is the only caller of \<^verbatim>\<open>handleSave\<close>, so a run starts from a
  state in which the control is enabled. Every such run builds one payload (it is logged,
  and it is the payload of every persistence call of the run), and that payload carries
  \<open>is_global = true\<close>, \<open>is_eval = false\<close>, the two empty id lists, the current name, the
  current description, the tags (\<open>localTags\<close> as they are) and the filtered messages.
\<close>

theorem payload_fields:
  "\<not> save_disabled msgs st \<Longrightarrow>
   (\<forall>e \<in> set (trace (handleSave msgs st now out)).
      payload_of e = None \<or> payload_of e = Some (build_payload msgs st now))
   \<and> ConsoleLog (build_payload msgs st now) \<in> set (trace (handleSave msgs st now out))
   \<and> is_global (build_payload msgs st now) = True
   \<and> is_eval (build_payload msgs st now) = False
   \<and> readable_by_user_ids (build_payload msgs st now) = []
   \<and> readable_by_group_ids (build_payload msgs st now) = []
   \<and> p_name (build_payload msgs st now) = name st
   \<and> p_description (build_payload msgs st now) = description st
   \<and> p_tags (build_payload msgs st now) = localTags st
   \<and> p_messages (build_payload msgs st now) = filteredMessages msgs"
proof -
  assume enabled: "\<not> save_disabled msgs st"
  have logged: "ConsoleLog (build_payload msgs st now) \<in> set (trace (handleSave msgs st now out))"
    by (cases st rule: save_mode_cases)
       (simp_all add: handleSave_runs trace_def split: outcome.splits)
  have named: "p_name (build_payload msgs st now) = name st"
    using enabled_name_nonempty [OF enabled] by (simp add: build_payload_def or_else_def)
  have described: "p_description (build_payload msgs st now) = description st"
    by (simp add: build_payload_def or_else_def)
  show ?thesis
    using logged named described payload_of_handleSave [of _ msgs st now out]
    by (simp add: build_payload_def)
qed

theorem payload_fields_witness:
  "ConsoleLog (build_payload example_messages example_state 0)
     \<in> set (trace (handleSave example_messages example_state 0 Fulfilled))
   \<and> p_name (build_payload example_messages example_state 0) = js ''Greeting''
   \<and> p_description (build_payload example_messages example_state 0) = js ''A greeting''
   \<and> p_tags (build_payload example_messages example_state 0) = [js ''demo'']
   \<and> p_messages (build_payload example_messages example_state 0) =
       [ \<lparr> chunks = [ \<lparr> kind = 0, chunk_text = Some (js ''Hello'') \<rparr> ], rest = () \<rparr> ]"
  using payload_fields [OF example_enabled, of 0 Fulfilled]
  by (simp add: example_filtered) (simp add: example_state_def)

subsection \<open>The file path in database mode\<close>

text \<open>
  C10. In database mode the file path does not matter: two states that differ only in
  \<open>filePath\<close> (with the same messages, clock and behaviour of the client) yield the
  same payload and the same run, whose one persistence call is
  \<^verbatim>\<open>createExample\<close> on that payload.
\<close>

theorem database_save_ignores_filePath:
  "saveMode st = Database \<Longrightarrow>
     build_payload msgs (st\<lparr>filePath := fp\<rparr>) now = build_payload msgs st now
     \<and> handleSave msgs (st\<lparr>filePath := fp\<rparr>) now out = handleSave msgs st now out
     \<and> api_calls (trace (handleSave msgs (st\<lparr>filePath := fp\<rparr>) now out)) =
         [CreateExample (build_payload msgs st now)]"
proof -
  assume db: "saveMode st = Database"
  have p: "build_payload msgs (st\<lparr>filePath := fp\<rparr>) now = build_payload msgs st now"
    by (simp add: build_payload_def)
  from db have "handleSave msgs (st\<lparr>filePath := fp\<rparr>) now out = handleSave msgs st now out"
    by (simp add: handleSave_database p split: outcome.splits)
  with db p show ?thesis
    by (simp add: api_calls_handleSave)
qed

theorem database_save_ignores_filePath_witness:
  "handleSave example_messages (example_state\<lparr>filePath := js ''/tmp/x.json''\<rparr>) 0 Fulfilled =
     handleSave example_messages example_state 0 Fulfilled"
  using database_save_ignores_filePath [OF example_state_mode, of example_messages
      "js ''/tmp/x.json''" 0 Fulfilled]
  by simp

end
